theory Spec2Isabelle
  imports Main
begin

unbundle bit_operations_syntax

section \<open>Strings as Python sees them\<close>

text \<open>
  A Python \<open>str\<close> is modelled as a \<open>string\<close> whose characters are the code points
  below 256. \<open>is_space\<close> is \<open>str.isspace\<close> on one such character: the whitespace that
  \<open>str.strip()\<close> and \<open>str.split()\<close> remove.
\<close>

definition is_space :: "char \<Rightarrow> bool" where
  "is_space c \<longleftrightarrow>
     (of_char c :: nat) \<in> set [9, 10, 11, 12, 13, 28, 29, 30, 31, 32, 133, 160]"

text \<open>\<open>s.strip()\<close>\<close>

definition strip :: "string \<Rightarrow> string" where
  "strip s = rev (dropWhile is_space (rev (dropWhile is_space s)))"

text \<open>
  \<open>s.split()\<close>: the fields between runs of whitespace; \<open>cur\<close> is the field being
  collected.
\<close>

fun split_fields :: "string \<Rightarrow> string \<Rightarrow> string list" where
  "split_fields cur [] = (if cur = [] then [] else [cur])"
| "split_fields cur (c # cs) =
     (if is_space c
      then (if cur = [] then split_fields [] cs else cur # split_fields [] cs)
      else split_fields (cur @ [c]) cs)"

definition split_ws :: "string \<Rightarrow> string list" where
  "split_ws s = split_fields [] s"

text \<open>\<open>s.split(sep)\<close> for a one-character separator: never an empty list.\<close>

fun split_sep :: "char \<Rightarrow> string \<Rightarrow> string \<Rightarrow> string list" where
  "split_sep sep cur [] = [cur]"
| "split_sep sep cur (c # cs) =
     (if c = sep then cur # split_sep sep [] cs else split_sep sep (cur @ [c]) cs)"

definition split_on :: "char \<Rightarrow> string \<Rightarrow> string list" where
  "split_on sep s = split_sep sep [] s"

text \<open>\<open>s.isascii() and s.isdigit()\<close>\<close>

definition is_ascii_digit :: "char \<Rightarrow> bool" where
  "is_ascii_digit c \<longleftrightarrow> 48 \<le> (of_char c :: nat) \<and> (of_char c :: nat) \<le> 57"

definition isascii_isdigit :: "string \<Rightarrow> bool" where
  "isascii_isdigit s \<longleftrightarrow> s \<noteq> [] \<and> list_all is_ascii_digit s"

text \<open>\<open>int(s, 10)\<close> on a string of ASCII digits.\<close>

definition int_base10 :: "string \<Rightarrow> int" where
  "int_base10 s = foldl (\<lambda>n c. 10 * n + (int (of_char c) - 48)) 0 s"

text \<open>The value of one hexadecimal digit, \<open>None\<close> for any other character.\<close>

definition hex_digit :: "char \<Rightarrow> int option" where
  "hex_digit c =
     (let k = (of_char c :: nat) in
      if 48 \<le> k \<and> k \<le> 57 then Some (int k - 48)
      else if 65 \<le> k \<and> k \<le> 70 then Some (int k - 55)
      else if 97 \<le> k \<and> k \<le> 102 then Some (int k - 87)
      else None)"

text \<open>\<open>int(s, 16)\<close> on a string of hexadecimal digits.\<close>

definition int_base16 :: "string \<Rightarrow> int" where
  "int_base16 s = foldl (\<lambda>n c. 16 * n + (case hex_digit c of Some d \<Rightarrow> d | None \<Rightarrow> 0)) 0 s"

text \<open>\<open>'%x' % n\<close> for \<open>n \<ge> 0\<close>: lower-case hexadecimal without padding.\<close>

fun hex_char :: "nat \<Rightarrow> char" where
  "hex_char d = (if d < 10 then char_of (48 + d) else char_of (87 + d))"

fun format_hex :: "nat \<Rightarrow> string" where
  "format_hex n = (if n < 16 then [hex_char n] else format_hex (n div 16) @ [hex_char (n mod 16)])"

text \<open>\<open>str(n)\<close> for \<open>n \<ge> 0\<close>.\<close>

fun str_nat :: "nat \<Rightarrow> string" where
  "str_nat n = (if n < 10 then [char_of (48 + n)] else str_nat (n div 10) @ [char_of (48 + n mod 10)])"

declare format_hex.simps [simp del]
declare str_nat.simps [simp del]

section \<open>The \<open>ipaddress\<close> module\<close>

text \<open>
  \<open>load_cidrs\<close> and \<open>ip_matches_any\<close> call \<open>ipaddress.ip_network(s, strict=False)\<close>,
  \<open>ipaddress.ip_address(s)\<close> and \<open>ip in net\<close> of Python's standard library. The part of the
  module (CPython 3.12) that these calls run on a \<open>str\<close> argument is embedded here; an exception
  raised inside it is \<open>None\<close>, and a Python integer is an \<open>int\<close>.
\<close>

datatype ip_version = V4 | V6

text \<open>An \<open>IPv4Address\<close> or \<open>IPv6Address\<close> object: \<open>_version\<close>, \<open>_ip\<close>, \<open>_scope_id\<close>
  (an \<open>IPv4Address\<close> has no scope).\<close>

record address =
  version :: ip_version
  ip :: int
  scope_id :: "string option"

text \<open>An \<open>IPv4Network\<close> or \<open>IPv6Network\<close> object; \<open>network_address\<close> and \<open>netmask\<close> are
  kept as the integers \<open>network_address._ip\<close> and \<open>netmask._ip\<close>.\<close>

record network =
  net_version :: ip_version
  network_address :: int
  netmask :: int
  prefixlen :: nat

text \<open>The \<open>ValueError\<close> of \<open>ip_network\<close> (\<open>'... does not appear to be an IPv4 or IPv6
  network'\<close>) and of \<open>ip_address\<close>, carrying the text that was refused.\<close>

datatype value_error = NotAnIPNetwork string | NotAnIPAddress string

text \<open>The second component of \<open>_split_addr_prefix\<close>: the integer \<open>_max_prefixlen\<close> when
  the text has no \<open>/\<close>, the text after the \<open>/\<close> otherwise.\<close>

datatype netmask_arg = PrefixInt int | MaskStr string

definition max_prefixlen :: "ip_version \<Rightarrow> nat" where
  "max_prefixlen v = (case v of V4 \<Rightarrow> 32 | V6 \<Rightarrow> 128)"

definition ALL_ONES :: "ip_version \<Rightarrow> int" where
  "ALL_ONES v = 2 ^ max_prefixlen v - 1"

text \<open>\<open>_ip_int_from_prefix\<close>: \<open>_ALL_ONES ^ (_ALL_ONES >> prefixlen)\<close>\<close>

definition ip_int_from_prefix :: "ip_version \<Rightarrow> nat \<Rightarrow> int" where
  "ip_int_from_prefix v p = ALL_ONES v XOR drop_bit p (ALL_ONES v)"

text \<open>\<open>int.bit_length()\<close>\<close>

function bit_length :: "int \<Rightarrow> nat" where
  "bit_length n = (if n = 0 then 0 else Suc (bit_length (\<bar>n\<bar> div 2)))"
  by pat_completeness auto
termination
  by (relation "measure (\<lambda>n. nat \<bar>n\<bar>)") auto

declare bit_length.simps [simp del]

definition count_righthand_zero_bits :: "int \<Rightarrow> nat \<Rightarrow> nat" where
  "count_righthand_zero_bits number bits =
     (if number = 0 then bits else min bits (bit_length (NOT number AND (number - 1))))"

definition prefix_from_ip_int :: "ip_version \<Rightarrow> int \<Rightarrow> nat option" where
  "prefix_from_ip_int v ip_int =
     (let trailing_zeroes = count_righthand_zero_bits ip_int (max_prefixlen v);
          plen = max_prefixlen v - trailing_zeroes;
          leading_ones = drop_bit trailing_zeroes ip_int;
          all_ones = push_bit plen 1 - 1
      in if leading_ones \<noteq> all_ones then None else Some plen)"

text \<open>\<open>_prefix_from_prefix_string\<close>. \<open>int(s)\<close> refuses more than 4300 digits
  (\<open>sys.int_info.default_max_str_digits\<close>), which is reported as an invalid netmask too.\<close>

definition prefix_from_prefix_string :: "ip_version \<Rightarrow> string \<Rightarrow> nat option" where
  "prefix_from_prefix_string v prefixlen_str =
     (if \<not> isascii_isdigit prefixlen_str then None
      else if length prefixlen_str > 4300 then None
      else let plen = int_base10 prefixlen_str
           in if \<not> (0 \<le> plen \<and> plen \<le> int (max_prefixlen v)) then None
              else Some (nat plen))"

subsection \<open>IPv4\<close>

definition parse_octet :: "string \<Rightarrow> int option" where
  "parse_octet octet_str =
     (if octet_str = [] then None
      else if \<not> isascii_isdigit octet_str then None
      else if length octet_str > 3 then None
      else if octet_str \<noteq> ''0'' \<and> hd octet_str = CHR ''0'' then None
      else let octet_int = int_base10 octet_str
           in if octet_int > 255 then None else Some octet_int)"

text \<open>\<open>int.from_bytes(bs, 'big')\<close>\<close>

definition from_bytes_big :: "int list \<Rightarrow> int" where
  "from_bytes_big bs = foldl (\<lambda>n b. 256 * n + b) 0 bs"

definition v4_ip_int_from_string :: "string \<Rightarrow> int option" where
  "v4_ip_int_from_string ip_str =
     (if ip_str = [] then None
      else let octets = split_on CHR ''.'' ip_str
           in if length octets \<noteq> 4 then None
              else map_option from_bytes_big (those (map parse_octet octets)))"

definition IPv4Address :: "string \<Rightarrow> address option" where
  "IPv4Address addr_str =
     (if CHR ''/'' \<in> set addr_str then None
      else map_option (\<lambda>n. \<lparr>version = V4, ip = n, scope_id = None\<rparr>)
             (v4_ip_int_from_string addr_str))"

text \<open>\<open>_prefix_from_ip_string\<close>: a dotted netmask, or else a dotted hostmask.\<close>

definition prefix_from_ip_string :: "string \<Rightarrow> nat option" where
  "prefix_from_ip_string ip_str =
     (case v4_ip_int_from_string ip_str of
        None \<Rightarrow> None
      | Some ip_int \<Rightarrow>
          (case prefix_from_ip_int V4 ip_int of
             Some p \<Rightarrow> Some p
           | None \<Rightarrow> prefix_from_ip_int V4 (ip_int XOR ALL_ONES V4)))"

text \<open>\<open>_BaseV4._make_netmask\<close>, without its cache: the netmask and the prefix length.\<close>

definition v4_make_netmask :: "netmask_arg \<Rightarrow> (int \<times> nat) option" where
  "v4_make_netmask arg =
     map_option (\<lambda>p. (ip_int_from_prefix V4 p, p))
       (case arg of
          PrefixInt n \<Rightarrow>
            (if \<not> (0 \<le> n \<and> n \<le> int (max_prefixlen V4)) then None
             else Some (nat n))
        | MaskStr s \<Rightarrow>
            (case prefix_from_prefix_string V4 s of
               Some p \<Rightarrow> Some p
             | None \<Rightarrow> prefix_from_ip_string s))"

text \<open>\<open>_split_optional_netmask\<close> and \<open>_split_addr_prefix\<close> on a \<open>str\<close>.\<close>

definition split_optional_netmask :: "string \<Rightarrow> string list option" where
  "split_optional_netmask address =
     (let addr = split_on CHR ''/'' address
      in if length addr > 2 then None else Some addr)"

definition split_addr_prefix :: "ip_version \<Rightarrow> string \<Rightarrow> (string \<times> netmask_arg) option" where
  "split_addr_prefix v address =
     (case split_optional_netmask address of
        None \<Rightarrow> None
      | Some addr \<Rightarrow>
          (if length addr > 1 then Some (addr ! 0, MaskStr (addr ! 1))
           else Some (addr ! 0, PrefixInt (int (max_prefixlen v)))))"

text \<open>The end of \<open>IPv4Network.__init__\<close> and \<open>IPv6Network.__init__\<close> with
  \<open>strict=False\<close>: host bits of the address are cleared, not refused.\<close>

definition make_network :: "ip_version \<Rightarrow> address \<Rightarrow> int \<times> nat \<Rightarrow> network" where
  "make_network v a m =
     (let packed = ip a
      in \<lparr>net_version = v,
          network_address = (if packed AND fst m \<noteq> packed then packed AND fst m else packed),
          netmask = fst m,
          prefixlen = snd m\<rparr>)"

text \<open>The start of \<open>IPv4Network.__init__\<close>: the address before the \<open>/\<close> and the
  netmask with its prefix length.\<close>

definition v4_network_parts :: "string \<Rightarrow> (address \<times> int \<times> nat) option" where
  "v4_network_parts address =
     (case split_addr_prefix V4 address of
        None \<Rightarrow> None
      | Some (addr, m) \<Rightarrow>
          (case IPv4Address addr of
             None \<Rightarrow> None
           | Some a \<Rightarrow> map_option (Pair a) (v4_make_netmask m)))"

definition IPv4Network :: "string \<Rightarrow> network option" where
  "IPv4Network address =
     map_option (\<lambda>(a, m). make_network V4 a m) (v4_network_parts address)"

subsection \<open>IPv6\<close>

text \<open>\<open>_split_scope_id\<close>: \<open>ip_str.partition('%')\<close>; a scope that is empty or holds
  another \<open>%\<close> is refused.\<close>

definition split_scope_id :: "string \<Rightarrow> (string \<times> string option) option" where
  "split_scope_id ip_str =
     (let addr = takeWhile (\<lambda>c. c \<noteq> CHR ''%'') ip_str;
          rest = dropWhile (\<lambda>c. c \<noteq> CHR ''%'') ip_str
      in if rest = [] then Some (addr, None)
         else if tl rest = [] \<or> CHR ''%'' \<in> set (tl rest) then None
         else Some (addr, Some (tl rest)))"

text \<open>\<open>_parse_hextet\<close>; the empty text passes both checks and is refused by
  \<open>int('', 16)\<close>.\<close>

definition parse_hextet :: "string \<Rightarrow> int option" where
  "parse_hextet hextet_str =
     (if \<not> list_all (\<lambda>c. hex_digit c \<noteq> None) hextet_str then None
      else if length hextet_str > 4 then None
      else if hextet_str = [] then None
      else Some (int_base16 hextet_str))"

text \<open>The IPv4-style suffix of \<open>_BaseV6._ip_int_from_string\<close>: a last part holding a
  dot is replaced by two hextets.\<close>

definition v6_convert_suffix :: "string list \<Rightarrow> string list option" where
  "v6_convert_suffix parts =
     (if CHR ''.'' \<in> set (last parts)
      then (case IPv4Address (last parts) of
              None \<Rightarrow> None
            | Some a \<Rightarrow>
                Some (butlast parts
                      @ [format_hex (nat (drop_bit 16 (ip a) AND 65535)),
                         format_hex (nat (ip a AND 65535))]))
      else Some parts)"

text \<open>The search for \<open>::\<close>: the indices from 1 to \<open>len(parts) - 2\<close> of the empty
  parts. More than one is an error (outer \<open>None\<close>); otherwise \<open>skip_index\<close>.\<close>

definition v6_skip_index :: "string list \<Rightarrow> nat option option" where
  "v6_skip_index parts =
     (case filter (\<lambda>i. parts ! i = []) [1 ..< length parts - 1] of
        [] \<Rightarrow> Some None
      | [i] \<Rightarrow> Some (Some i)
      | _ \<Rightarrow> None)"

text \<open>\<open>parts_hi\<close>, \<open>parts_lo\<close> and \<open>parts_skipped\<close>.\<close>

definition v6_part_counts :: "string list \<Rightarrow> nat option \<Rightarrow> (nat \<times> nat \<times> nat) option" where
  "v6_part_counts parts skip =
     (case skip of
        Some skip_index \<Rightarrow>
          (let hi0 = skip_index;
               lo0 = length parts - skip_index - 1;
               parts_hi = (if hd parts = [] then hi0 - 1 else hi0);
               parts_lo = (if last parts = [] then lo0 - 1 else lo0)
           in if hd parts = [] \<and> parts_hi \<noteq> 0 then None
              else if last parts = [] \<and> parts_lo \<noteq> 0 then None
              else if 8 - int (parts_hi + parts_lo) < 1 then None
              else Some (parts_hi, parts_lo, 8 - (parts_hi + parts_lo)))
      | None \<Rightarrow>
          (if length parts \<noteq> 8 then None
           else if hd parts = [] then None
           else if last parts = [] then None
           else Some (length parts, 0, 0)))"

text \<open>One round of the hextet loops: \<open>ip_int <<= 16; ip_int |= h\<close>.\<close>

definition shift_in_hextets :: "int \<Rightarrow> int list \<Rightarrow> int" where
  "shift_in_hextets ip_int hs = foldl (\<lambda>n h. push_bit 16 n OR h) ip_int hs"

definition v6_ip_int_from_string :: "string \<Rightarrow> int option" where
  "v6_ip_int_from_string ip_str =
     (if ip_str = [] then None
      else let parts0 = split_on CHR '':'' ip_str
           in if length parts0 < 3 then None
              else case v6_convert_suffix parts0 of
                 None \<Rightarrow> None
               | Some parts \<Rightarrow>
                   (if length parts > 9 then None
                    else case v6_skip_index parts of
                       None \<Rightarrow> None
                     | Some skip \<Rightarrow>
                         (case v6_part_counts parts skip of
                            None \<Rightarrow> None
                          | Some (parts_hi, parts_lo, parts_skipped) \<Rightarrow>
                              (case (those (map parse_hextet (take parts_hi parts)),
                                     those (map parse_hextet
                                              (drop (length parts - parts_lo) parts))) of
                                 (Some his, Some los) \<Rightarrow>
                                   Some (shift_in_hextets
                                           (push_bit (16 * parts_skipped)
                                              (shift_in_hextets 0 his)) los)
                               | _ \<Rightarrow> None))))"

definition IPv6Address :: "string \<Rightarrow> address option" where
  "IPv6Address addr_str =
     (if CHR ''/'' \<in> set addr_str then None
      else case split_scope_id addr_str of
         None \<Rightarrow> None
       | Some (a, scope) \<Rightarrow>
           map_option (\<lambda>n. \<lparr>version = V6, ip = n, scope_id = scope\<rparr>)
             (v6_ip_int_from_string a))"

text \<open>\<open>_BaseV6._make_netmask\<close>, without its cache: a prefix length only.\<close>

definition v6_make_netmask :: "netmask_arg \<Rightarrow> (int \<times> nat) option" where
  "v6_make_netmask arg =
     map_option (\<lambda>p. (ip_int_from_prefix V6 p, p))
       (case arg of
          PrefixInt n \<Rightarrow>
            (if \<not> (0 \<le> n \<and> n \<le> int (max_prefixlen V6)) then None
             else Some (nat n))
        | MaskStr s \<Rightarrow> prefix_from_prefix_string V6 s)"

definition v6_network_parts :: "string \<Rightarrow> (address \<times> int \<times> nat) option" where
  "v6_network_parts address =
     (case split_addr_prefix V6 address of
        None \<Rightarrow> None
      | Some (addr, m) \<Rightarrow>
          (case IPv6Address addr of
             None \<Rightarrow> None
           | Some a \<Rightarrow> map_option (Pair a) (v6_make_netmask m)))"

definition IPv6Network :: "string \<Rightarrow> network option" where
  "IPv6Network address =
     map_option (\<lambda>(a, m). make_network V6 a m) (v6_network_parts address)"

subsection \<open>The module's functions\<close>

definition ip_address :: "string \<Rightarrow> value_error + address" where
  "ip_address s =
     (case IPv4Address s of
        Some a \<Rightarrow> Inr a
      | None \<Rightarrow>
          (case IPv6Address s of
             Some a \<Rightarrow> Inr a
           | None \<Rightarrow> Inl (NotAnIPAddress s)))"

text \<open>\<open>ip_network(s, strict=False)\<close>\<close>

definition ip_network :: "string \<Rightarrow> value_error + network" where
  "ip_network s =
     (case IPv4Network s of
        Some n \<Rightarrow> Inr n
      | None \<Rightarrow>
          (case IPv6Network s of
             Some n \<Rightarrow> Inr n
           | None \<Rightarrow> Inl (NotAnIPNetwork s)))"

text \<open>\<open>ip in net\<close>: \<open>_BaseNetwork.__contains__\<close> on an address.\<close>

definition net_contains :: "network \<Rightarrow> address \<Rightarrow> bool" where
  "net_contains net a =
     (if net_version net \<noteq> version a then False
      else ip a AND netmask net = network_address net)"

section \<open>grepcidr\<close>

text \<open>The \<open>argparse\<close> namespace returned by \<open>parse_args\<close>.\<close>

record namespace =
  expr :: "string list"
  cidr_file :: "string option"
  invert_match :: bool
  count :: bool
  only_matching :: bool
  field :: int
  args :: "string list"

text \<open>
  The world outside the process: \<open>files w path\<close> is what \<open>open(path)\<close> followed by
  iteration gives, the lines with their terminators or the text of the \<open>OSError\<close>;
  \<open>stdin w\<close> is the lines of standard input.
\<close>

record world =
  files :: "string \<Rightarrow> string + string list"
  stdin :: "string list"

text \<open>What is printed on \<open>sys.stderr\<close> before \<open>sys.exit\<close>.\<close>

datatype message =
    CannotOpenCidrFile string string
  | NoCidrsProvided
  | InvalidCIDR string value_error
  | FieldNumberMustBeAtLeast1
  | CannotOpenFile string string

text \<open>A run: the strings printed on standard output, one for each \<open>print\<close>, the
  messages on standard error and the exit status.\<close>

record result =
  stdout :: "string list"
  stderr :: "message list"
  status :: nat

text \<open>A message on standard error followed by \<open>sys.exit(code)\<close>, as a value: the message
  and the code.\<close>

type_synonym fatal = "message \<times> nat"

subsection \<open>\<open>load_cidrs\<close>\<close>

text \<open>The expressions of the CIDR file: stripped lines, without the empty ones and the
  comments.\<close>

definition cidr_file_entries :: "string list \<Rightarrow> string list" where
  "cidr_file_entries ls = filter (\<lambda>line. \<not> (line = [] \<or> hd line = CHR ''#'')) (map strip ls)"

definition file_cidrs :: "world \<Rightarrow> namespace \<Rightarrow> fatal + string list" where
  "file_cidrs w a =
     (case cidr_file a of
        None \<Rightarrow> Inr []
      | Some path \<Rightarrow>
          (if path = [] then Inr []
           else case files w path of
              Inl e \<Rightarrow> Inl (CannotOpenCidrFile path e, 3)
            | Inr ls \<Rightarrow> Inr (cidr_file_entries ls)))"

text \<open>The positional arguments: what is added to \<open>cidr_strings\<close>, and \<open>infile\<close>.\<close>

definition resolve_positional :: "string list \<Rightarrow> string list \<times> string option" where
  "resolve_positional positional =
     (if positional \<noteq> []
      then (case ip_network (last positional) of
              Inr _ \<Rightarrow> (positional, None)
            | Inl _ \<Rightarrow> (butlast positional, Some (last positional)))
      else ([], None))"

text \<open>\<open>cidr_strings\<close> and \<open>infile\<close> when the loop over \<open>cidr_strings\<close> is reached.\<close>

definition cidr_strings_of :: "world \<Rightarrow> namespace \<Rightarrow> fatal + string list \<times> string option" where
  "cidr_strings_of w a =
     (case file_cidrs w a of
        Inl x \<Rightarrow> Inl x
      | Inr fs \<Rightarrow>
          Inr (expr a @ fs @ fst (resolve_positional (args a)),
               snd (resolve_positional (args a))))"

text \<open>The loop that fills \<open>networks\<close>.\<close>

fun parse_networks :: "string list \<Rightarrow> fatal + network list" where
  "parse_networks [] = Inr []"
| "parse_networks (cidr # rest) =
     (case ip_network cidr of
        Inl e \<Rightarrow> Inl (InvalidCIDR cidr e, 2)
      | Inr n \<Rightarrow>
          (case parse_networks rest of
             Inl x \<Rightarrow> Inl x
           | Inr ns \<Rightarrow> Inr (n # ns)))"

definition load_cidrs :: "world \<Rightarrow> namespace \<Rightarrow> fatal + network list \<times> string option" where
  "load_cidrs w a =
     (case cidr_strings_of w a of
        Inl x \<Rightarrow> Inl x
      | Inr (cidr_strings, infile) \<Rightarrow>
          (if cidr_strings = [] then Inl (NoCidrsProvided, 2)
           else case parse_networks cidr_strings of
              Inl x \<Rightarrow> Inl x
            | Inr networks \<Rightarrow> Inr (networks, infile)))"

subsection \<open>\<open>ip_matches_any\<close>\<close>

fun any_network :: "address \<Rightarrow> network list \<Rightarrow> bool" where
  "any_network a [] = False"
| "any_network a (net # rest) =
     (if version a = net_version net \<and> net_contains net a then True
      else any_network a rest)"

definition ip_matches_any :: "string \<Rightarrow> network list \<Rightarrow> bool" where
  "ip_matches_any ip_s networks =
     (case ip_address ip_s of
        Inl _ \<Rightarrow> False
      | Inr a \<Rightarrow> any_network a networks)"

subsection \<open>\<open>main\<close>\<close>

text \<open>The first half of the loop body: \<open>None\<close> where the line is left by \<open>continue\<close>,
  otherwise the field \<open>ip_s\<close> and \<open>matched\<close> after the inversion.\<close>

definition line_match :: "namespace \<Rightarrow> nat \<Rightarrow> network list \<Rightarrow> string \<Rightarrow> (string \<times> bool) option" where
  "line_match a field_index networks line =
     (if strip line = [] then None
      else let parts = split_ws line
           in if field_index \<ge> length parts then None
              else let ip_s = parts ! field_index;
                       matched = ip_matches_any ip_s networks
                   in Some (ip_s, if invert_match a then \<not> matched else matched))"

text \<open>The loop body on the state \<open>(selected, output so far)\<close>. \<open>print(ip_s)\<close> writes
  the field and a newline, \<open>print(line, end="")\<close> the line as it is.\<close>

definition process_line ::
  "namespace \<Rightarrow> nat \<Rightarrow> network list \<Rightarrow> string \<Rightarrow> nat \<times> string list \<Rightarrow> nat \<times> string list" where
  "process_line a field_index networks line st =
     (case line_match a field_index networks line of
        None \<Rightarrow> st
      | Some (ip_s, matched) \<Rightarrow>
          (if matched
           then (if \<not> count a
                 then (if only_matching a
                       then (fst st + 1, snd st @ [ip_s @ [CHR 0x0A]])
                       else (fst st + 1, snd st @ [line]))
                 else (fst st + 1, snd st))
           else st))"

fun filter_lines ::
  "namespace \<Rightarrow> nat \<Rightarrow> network list \<Rightarrow> string list \<Rightarrow> nat \<times> string list \<Rightarrow> nat \<times> string list" where
  "filter_lines a field_index networks [] st = st"
| "filter_lines a field_index networks (line # rest) st =
     filter_lines a field_index networks rest (process_line a field_index networks line st)"

definition fatal_exit :: "fatal \<Rightarrow> result" where
  "fatal_exit x = \<lparr>stdout = [], stderr = [fst x], status = snd x\<rparr>"

text \<open>The lines of the input: the file \<open>infile\<close> when it is set and not empty, standard
  input otherwise.\<close>

definition open_input :: "world \<Rightarrow> string option \<Rightarrow> fatal + string list" where
  "open_input w infile =
     (case infile of
        None \<Rightarrow> Inr (stdin w)
      | Some path \<Rightarrow>
          (if path = [] then Inr (stdin w)
           else case files w path of
              Inl e \<Rightarrow> Inl (CannotOpenFile path e, 3)
            | Inr ls \<Rightarrow> Inr ls))"

definition main :: "world \<Rightarrow> namespace \<Rightarrow> result" where
  "main w a =
     (if field a < 1 then fatal_exit (FieldNumberMustBeAtLeast1, 2)
      else case load_cidrs w a of
         Inl x \<Rightarrow> fatal_exit x
       | Inr (networks, infile) \<Rightarrow>
           (case open_input w infile of
              Inl x \<Rightarrow> fatal_exit x
            | Inr ls \<Rightarrow>
                (let st = filter_lines a (nat (field a - 1)) networks ls (0, [])
                 in \<lparr>stdout = (if count a then snd st @ [str_nat (fst st) @ [CHR 0x0A]]
                               else snd st),
                     stderr = [],
                     status = 0\<rparr>)))"

subsection \<open>What the loop does to one line\<close>

text \<open>A line is selected when it is not blank, has the field, and the membership of the
  field differs from the invert flag.\<close>

definition line_selected :: "namespace \<Rightarrow> nat \<Rightarrow> network list \<Rightarrow> string \<Rightarrow> bool" where
  "line_selected a field_index networks line \<longleftrightarrow>
     strip line \<noteq> [] \<and> field_index < length (split_ws line) \<and>
     (ip_matches_any (split_ws line ! field_index) networks \<noteq> invert_match a)"

text \<open>What is printed for a selected line outside count mode.\<close>

definition emitted :: "namespace \<Rightarrow> nat \<Rightarrow> string \<Rightarrow> string" where
  "emitted a field_index line =
     (if only_matching a then split_ws line ! field_index @ [CHR 0x0A] else line)"

text \<open>\<open>ip_network\<close> tries IPv4 first: the version, the address before the host bits are
  cleared, the netmask and the prefix length, when the text is accepted.\<close>

definition network_parts :: "string \<Rightarrow> (ip_version \<times> address \<times> int \<times> nat) option" where
  "network_parts s =
     (case v4_network_parts s of
        Some x \<Rightarrow> Some (V4, x)
      | None \<Rightarrow> map_option (Pair V6) (v6_network_parts s))"

subsection \<open>Text-mode files\<close>

text \<open>
  \<open>open(path, "r", encoding="utf-8", errors="ignore")\<close> gives a text stream with universal
  newlines. \<open>translate_newlines\<close> is what the stream does to the decoded text of the
  file: \<open>\r\n\<close> and a lone \<open>\r\<close> become \<open>\n\<close>.
\<close>

fun translate_newlines :: "string \<Rightarrow> string" where
  "translate_newlines [] = []"
| "translate_newlines [c] = [if c = CHR 0x0D then CHR 0x0A else c]"
| "translate_newlines (c # d # cs) =
     (if c = CHR 0x0D \<and> d = CHR 0x0A then CHR 0x0A # translate_newlines cs
      else if c = CHR 0x0D then CHR 0x0A # translate_newlines (d # cs)
      else c # translate_newlines (d # cs))"

text \<open>The lines that iterating over the stream gives: each ends after a \<open>\n\<close>, the
  last one at the end of the text; \<open>cur\<close> is the line being collected.\<close>

fun split_lines :: "string \<Rightarrow> string \<Rightarrow> string list" where
  "split_lines cur [] = (if cur = [] then [] else [cur])"
| "split_lines cur (c # cs) =
     (if c = CHR 0x0A then (cur @ [c]) # split_lines [] cs else split_lines (cur @ [c]) cs)"

definition text_mode_lines :: "string \<Rightarrow> string list" where
  "text_mode_lines text = split_lines [] (translate_newlines text)"

text \<open>The world in which the files hold the decoded texts \<open>contents\<close>, each read through
  such a stream, and standard input gives the lines \<open>ls\<close>.\<close>

definition read_world :: "(string \<Rightarrow> string + string) \<Rightarrow> string list \<Rightarrow> world" where
  "read_world contents ls =
     \<lparr>files = (\<lambda>path. case contents path of
                         Inl e \<Rightarrow> Inl e
                       | Inr text \<Rightarrow> Inr (text_mode_lines text)),
      stdin = ls\<rparr>"

section \<open>A sample run\<close>

definition demo_world :: world where
  "demo_world =
     \<lparr>files = (\<lambda>path.
         if path = ''hosts.txt''
         then Inr [''host1 10.1.2.3 up\<newline>'', ''  \<newline>'', ''host2 192.168.1.7 down\<newline>'',
                   ''short\<newline>'', ''host3 not-an-ip up\<newline>'']
         else if path = ''nets.txt''
         then Inr [''# office\<newline>'', ''\<newline>'', ''  192.168.1.77/24  \<newline>'']
         else Inl ''No such file or directory''),
      stdin = [''10.9.9.9\<newline>'', ''172.16.0.1 x\<newline>'']\<rparr>"

definition demo_args :: namespace where
  "demo_args =
     \<lparr>expr = [], cidr_file = None, invert_match = False, count = False,
      only_matching = False, field = 2, args = [''10.0.0.0/8'', ''hosts.txt'']\<rparr>"

definition demo_lines :: "string list" where
  "demo_lines =
     [''host1 10.1.2.3 up\<newline>'', ''  \<newline>'', ''host2 192.168.1.7 down\<newline>'',
      ''short\<newline>'', ''host3 not-an-ip up\<newline>'']"

definition demo_networks :: "network list" where
  "demo_networks =
     [\<lparr>net_version = V4, network_address = 167772160, netmask = 4278190080, prefixlen = 8\<rparr>]"

text \<open>A file of one line that ends in \<open>\r\n\<close>.\<close>

definition crlf_contents :: "string \<Rightarrow> string + string" where
  "crlf_contents path =
     (if path = ''hosts.txt'' then Inr (''host1 10.1.2.3 up'' @ [CHR 0x0D, CHR 0x0A])
      else Inl ''No such file or directory'')"

section \<open>Properties\<close>

subsection \<open>Blank lines and fields\<close>

lemma strip_Nil_iff: "strip s = [] \<longleftrightarrow> (\<forall>c\<in>set s. is_space c)"
proof
  assume "strip s = []"
  then have "dropWhile is_space (rev (dropWhile is_space s)) = []"
    by (simp add: strip_def)
  then have all: "\<forall>c\<in>set (dropWhile is_space s). is_space c"
    by (simp add: dropWhile_eq_Nil_conv)
  have "dropWhile is_space s = []"
  proof (rule ccontr)
    assume ne: "dropWhile is_space s \<noteq> []"
    then have "\<not> is_space (hd (dropWhile is_space s))"
      by (rule hd_dropWhile)
    moreover have "hd (dropWhile is_space s) \<in> set (dropWhile is_space s)"
      using ne by simp
    ultimately show False using all by blast
  qed
  then show "\<forall>c\<in>set s. is_space c"
    by (simp add: dropWhile_eq_Nil_conv)
next
  assume "\<forall>c\<in>set s. is_space c"
  then have d: "dropWhile is_space s = []"
    by (simp add: dropWhile_eq_Nil_conv)
  show "strip s = []"
    by (simp only: strip_def d rev.simps dropWhile.simps)
qed

lemma split_fields_spaces: "\<forall>c\<in>set s. is_space c \<Longrightarrow> split_fields [] s = []"
  by (induction s) auto

lemma split_ws_blank: "strip s = [] \<Longrightarrow> split_ws s = []"
  by (simp add: strip_Nil_iff split_ws_def split_fields_spaces)

lemma line_match_eq:
  "line_match a fi nets line =
     (if fi < length (split_ws line)
      then Some (split_ws line ! fi, line_selected a fi nets line)
      else None)"
  using split_ws_blank [of line]
  by (auto simp: line_match_def line_selected_def Let_def)

lemma process_line_eq:
  "process_line a fi nets line st =
     (if line_selected a fi nets line
      then (fst st + 1, if count a then snd st else snd st @ [emitted a fi line])
      else st)"
  by (auto simp: process_line_def line_match_eq emitted_def line_selected_def)

lemma filter_lines_eq:
  "filter_lines a fi nets ls st =
     (fst st + length (filter (line_selected a fi nets) ls),
      if count a then snd st
      else snd st @ map (emitted a fi) (filter (line_selected a fi nets) ls))"
  by (induction ls arbitrary: st) (auto simp: process_line_eq)

lemma filter_lines_append:
  "filter_lines a fi nets (xs @ ys) st = filter_lines a fi nets ys (filter_lines a fi nets xs st)"
  by (induction xs arbitrary: st) auto


subsection \<open>Networks\<close>

lemma ip_network_parts:
  "ip_network s =
     (case network_parts s of
        Some (v, a, m) \<Rightarrow> Inr (make_network v a m)
      | None \<Rightarrow> Inl (NotAnIPNetwork s))"
  by (auto simp: ip_network_def network_parts_def IPv4Network_def IPv6Network_def
           split: option.splits)

lemma ALL_ONES_mask: "ALL_ONES v = mask (max_prefixlen v)"
  by (simp add: ALL_ONES_def mask_eq_exp_minus_1)

lemma bit_ip_int_from_prefix:
  "bit (ip_int_from_prefix v p) i \<longleftrightarrow> i < max_prefixlen v \<and> max_prefixlen v \<le> i + p"
  by (auto simp: ip_int_from_prefix_def ALL_ONES_mask bit_simps)

lemma netmask_hostmask_disjoint:
  "(x AND ip_int_from_prefix v p) AND (ip_int_from_prefix v p XOR ALL_ONES v) = 0"
  by (rule bit_eqI) (auto simp: bit_simps bit_ip_int_from_prefix ALL_ONES_mask)

lemma v4_make_netmask_Some: "v4_make_netmask m = Some (nm, p) \<Longrightarrow> nm = ip_int_from_prefix V4 p"
  by (auto simp: v4_make_netmask_def)

lemma v6_make_netmask_Some: "v6_make_netmask m = Some (nm, p) \<Longrightarrow> nm = ip_int_from_prefix V6 p"
  by (auto simp: v6_make_netmask_def)

lemma network_parts_netmask:
  "network_parts s = Some (v, a, nm, p) \<Longrightarrow> nm = ip_int_from_prefix v p"
  by (auto simp: network_parts_def v4_network_parts_def v6_network_parts_def
           dest: v4_make_netmask_Some v6_make_netmask_Some split: option.splits)

lemma ip_network_netmask:
  "ip_network s = Inr n \<Longrightarrow> netmask n = ip_int_from_prefix (net_version n) (prefixlen n)"
  by (auto simp: ip_network_parts make_network_def Let_def
           dest: network_parts_netmask split: option.splits)

lemma make_network_eq:
  "make_network v a (nm, p) =
     \<lparr>net_version = v, network_address = ip a AND nm, netmask = nm, prefixlen = p\<rparr>"
  by (simp add: make_network_def Let_def)

lemma parse_networks_sound:
  "parse_networks cs = Inr S \<Longrightarrow> N \<in> set S \<Longrightarrow> \<exists>c\<in>set cs. ip_network c = Inr N"
  by (induction cs arbitrary: S) (auto split: sum.splits)

lemma parse_networks_append:
  "parse_networks (xs @ ys) =
     (case parse_networks xs of
        Inl x \<Rightarrow> Inl x
      | Inr ns \<Rightarrow> (case parse_networks ys of Inl x \<Rightarrow> Inl x | Inr ms \<Rightarrow> Inr (ns @ ms)))"
  by (induction xs) (auto split: sum.splits)

lemma any_network_iff:
  "any_network a S \<longleftrightarrow> (\<exists>N\<in>set S. version a = net_version N \<and> net_contains N a)"
  by (induction S) auto

lemma resolve_positional_snoc:
  "resolve_positional (ts @ [t]) =
     (case ip_network t of Inr _ \<Rightarrow> (ts @ [t], None) | Inl _ \<Rightarrow> (ts, Some t))"
  by (simp add: resolve_positional_def split: sum.splits)

lemma ip_network_Inl: "ip_network c = Inl e \<Longrightarrow> e = NotAnIPNetwork c"
  by (auto simp: ip_network_def split: option.splits)

lemma parse_networks_first_failure:
  "c \<in> set cs \<Longrightarrow> ip_network c = Inl e \<Longrightarrow>
   \<exists>pre c' post. cs = pre @ c' # post \<and> (\<forall>x\<in>set pre. \<exists>n. ip_network x = Inr n) \<and>
     ip_network c' = Inl (NotAnIPNetwork c') \<and>
     parse_networks cs = Inl (InvalidCIDR c' (NotAnIPNetwork c'), 2)"
proof (induction cs)
  case Nil
  then show ?case by simp
next
  case (Cons x cs)
  show ?case
  proof (cases "ip_network x")
    case (Inl e')
    then have "ip_network x = Inl (NotAnIPNetwork x)"
      using ip_network_Inl by blast
    then have "x # cs = [] @ x # cs \<and> (\<forall>y\<in>set []. \<exists>n. ip_network y = Inr n) \<and>
        ip_network x = Inl (NotAnIPNetwork x) \<and>
        parse_networks (x # cs) = Inl (InvalidCIDR x (NotAnIPNetwork x), 2)"
      by simp
    then show ?thesis by blast
  next
    case (Inr n)
    with Cons.prems have "c \<in> set cs" by auto
    from Cons.IH [OF this Cons.prems(2)] obtain pre c' post where
      h: "cs = pre @ c' # post" "\<forall>x\<in>set pre. \<exists>n. ip_network x = Inr n"
         "ip_network c' = Inl (NotAnIPNetwork c')"
         "parse_networks cs = Inl (InvalidCIDR c' (NotAnIPNetwork c'), 2)"
      by blast
    have "x # cs = (x # pre) @ c' # post \<and> (\<forall>y\<in>set (x # pre). \<exists>n. ip_network y = Inr n) \<and>
        ip_network c' = Inl (NotAnIPNetwork c') \<and>
        parse_networks (x # cs) = Inl (InvalidCIDR c' (NotAnIPNetwork c'), 2)"
      using h Inr by simp
    then show ?thesis by blast
  qed
qed


subsection \<open>Text-mode files\<close>

lemma translate_newlines_no_CR: "CHR 0x0D \<notin> set (translate_newlines t)"
  by (induction t rule: translate_newlines.induct) auto

lemma split_lines_subset: "l \<in> set (split_lines cur t) \<Longrightarrow> set l \<subseteq> set cur \<union> set t"
proof (induction t arbitrary: cur)
  case Nil
  then show ?case by (simp split: if_splits)
next
  case (Cons c cs)
  show ?case
  proof (cases "c = CHR 0x0A")
    case True
    with Cons.prems have "l = cur @ [c] \<or> l \<in> set (split_lines [] cs)"
      by simp
    then show ?thesis
      using Cons.IH [of "[]"] by auto
  next
    case False
    with Cons.prems have "l \<in> set (split_lines (cur @ [c]) cs)"
      by simp
    then show ?thesis
      using Cons.IH [of "cur @ [c]"] by auto
  qed
qed

lemma text_mode_lines_no_CR: "l \<in> set (text_mode_lines t) \<Longrightarrow> CHR 0x0D \<notin> set l"
  using split_lines_subset [of l "[]" "translate_newlines t"] translate_newlines_no_CR [of t]
  by (auto simp: text_mode_lines_def)

lemma open_input_read_world:
  "path \<noteq> [] \<Longrightarrow> contents path = Inr text \<Longrightarrow>
   open_input (read_world contents ls) (Some path) = Inr (text_mode_lines text)"
  by (simp add: open_input_def read_world_def)

subsection \<open>The filter loop\<close>

text \<open>
  C6: a line that is empty or holds only whitespace is skipped. Whatever the invert, count
  and only-matching flags are, the loop body leaves the selection count and the output as
  they were, so a run over an input with such a line is the run over the input without it.
\<close>

theorem blank_line_skipped:
  assumes "\<forall>c\<in>set line. is_space c"
  shows "process_line a fi nets line st = st \<and>
         filter_lines a fi nets (xs @ line # ys) st = filter_lines a fi nets (xs @ ys) st"
proof -
  have "strip line = []"
    using assms by (simp add: strip_Nil_iff)
  then have "process_line a fi nets line st = st" for st
    by (simp add: process_line_def line_match_def)
  then show ?thesis
    by (simp add: filter_lines_append)
qed

theorem blank_line_skipped_witness:
  "list_all is_space ''  \<newline>'' \<and>
   process_line (demo_args\<lparr>invert_match := True\<rparr>) 0 demo_networks ''  \<newline>'' (0, []) = (0, []) \<and>
   filter_lines (demo_args\<lparr>invert_match := True\<rparr>) 0 demo_networks
       ([''10.1.2.3\<newline>''] @ ''  \<newline>'' # [''172.16.0.1\<newline>'']) (0, []) =
     filter_lines (demo_args\<lparr>invert_match := True\<rparr>) 0 demo_networks
       ([''10.1.2.3\<newline>''] @ [''172.16.0.1\<newline>'']) (0, [])"
proof -
  have l: "list_all is_space ''  \<newline>''"
    by code_simp
  then have h: "\<forall>c\<in>set ''  \<newline>''. is_space c"
    by (simp only: list_all_iff)
  show ?thesis
    using l blank_line_skipped [OF h] by blast
qed

text \<open>
  C5, amended: outside count mode a line whose effective match is true causes exactly one
  \<open>print\<close>. In only-matching mode it prints the selected field (followed by the newline
  that \<open>print\<close> adds), otherwise the line exactly as the input stream delivered it, with
  its spacing and the terminator the stream gave it. Over a whole input the output is one
  such string for each selected line, in input order, and nothing else. For an input file
  the stream is a text-mode file with universal newlines: the lines are those of the
  decoded text with \<open>\r\n\<close> and \<open>\r\<close> translated to \<open>\n\<close>, so no printed line holds
  a \<open>\r\<close> that ended a line of the file.
\<close>

theorem matched_line_written_once:
  assumes "line_selected a fi nets line" and "\<not> count a"
  shows "process_line a fi nets line (n, out) =
           (n + 1, out @ [if only_matching a then split_ws line ! fi @ [CHR 0x0A] else line]) \<and>
         snd (filter_lines a fi nets ls (n, out)) =
           out @ map (\<lambda>l. if only_matching a then split_ws l ! fi @ [CHR 0x0A] else l)
                   (filter (line_selected a fi nets) ls) \<and>
         (1 \<le> field a \<and> load_cidrs (read_world contents sl) a = Inr (nets', Some path) \<and>
          path \<noteq> [] \<and> contents path = Inr text \<longrightarrow>
            stdout (main (read_world contents sl) a) =
              map (\<lambda>l. if only_matching a then split_ws l ! nat (field a - 1) @ [CHR 0x0A] else l)
                (filter (line_selected a (nat (field a - 1)) nets') (text_mode_lines text)) \<and>
            (\<not> only_matching a \<longrightarrow>
               (\<forall>l\<in>set (stdout (main (read_world contents sl) a)).
                  l \<in> set (text_mode_lines text) \<and> CHR 0x0D \<notin> set l)))"
proof -
  have one: "process_line a fi nets line (n, out) =
      (n + 1, out @ [if only_matching a then split_ws line ! fi @ [CHR 0x0A] else line])"
    using assms by (simp add: process_line_eq emitted_def)
  have run: "snd (filter_lines a fi nets ls (n, out)) =
      out @ map (\<lambda>l. if only_matching a then split_ws l ! fi @ [CHR 0x0A] else l)
              (filter (line_selected a fi nets) ls)"
    using assms(2) by (simp add: filter_lines_eq emitted_def)
  have infile_run: "stdout (main (read_world contents sl) a) =
      map (\<lambda>l. if only_matching a then split_ws l ! nat (field a - 1) @ [CHR 0x0A] else l)
        (filter (line_selected a (nat (field a - 1)) nets') (text_mode_lines text))"
    if "1 \<le> field a" "load_cidrs (read_world contents sl) a = Inr (nets', Some path)"
      "path \<noteq> []" "contents path = Inr text"
    using that(1,2) assms(2) open_input_read_world [of path contents "text" sl, OF that(3,4)]
    by (simp add: main_def filter_lines_eq emitted_def Let_def)
  have lines: "\<forall>l\<in>set (stdout (main (read_world contents sl) a)).
      l \<in> set (text_mode_lines text) \<and> CHR 0x0D \<notin> set l"
    if "1 \<le> field a" "load_cidrs (read_world contents sl) a = Inr (nets', Some path)"
      "path \<noteq> []" "contents path = Inr text" "\<not> only_matching a"
  proof -
    have "stdout (main (read_world contents sl) a) =
        filter (line_selected a (nat (field a - 1)) nets') (text_mode_lines text)"
      using infile_run [OF that(1,2,3,4)] that(5) by simp
    then show ?thesis
      using text_mode_lines_no_CR [of _ "text"] by simp
  qed
  show ?thesis
    using one run infile_run lines by blast
qed

theorem matched_line_written_once_witness:
  "line_selected (demo_args\<lparr>only_matching := True\<rparr>) 1 demo_networks ''host1 10.1.2.3 up\<newline>'' \<and>
   \<not> count (demo_args\<lparr>only_matching := True\<rparr>) \<and>
   process_line (demo_args\<lparr>only_matching := True\<rparr>) 1 demo_networks
       ''host1 10.1.2.3 up\<newline>'' (0, []) = (1, [''10.1.2.3\<newline>'']) \<and>
   line_selected demo_args 1 demo_networks ''host1 10.1.2.3 up\<newline>'' \<and>
   \<not> count demo_args \<and>
   process_line demo_args 1 demo_networks ''host1 10.1.2.3 up\<newline>'' (0, []) =
     (1, [''host1 10.1.2.3 up\<newline>'']) \<and>
   1 \<le> field demo_args \<and>
   load_cidrs (read_world crlf_contents []) demo_args = Inr (demo_networks, Some ''hosts.txt'') \<and>
   ''hosts.txt'' \<noteq> [] \<and>
   crlf_contents ''hosts.txt'' = Inr (''host1 10.1.2.3 up'' @ [CHR 0x0D, CHR 0x0A]) \<and>
   \<not> only_matching demo_args \<and>
   text_mode_lines (''host1 10.1.2.3 up'' @ [CHR 0x0D, CHR 0x0A]) = [''host1 10.1.2.3 up\<newline>''] \<and>
   stdout (main (read_world crlf_contents []) demo_args) = [''host1 10.1.2.3 up\<newline>'']"
proof -
  have h1: "line_selected (demo_args\<lparr>only_matching := True\<rparr>) 1 demo_networks
      ''host1 10.1.2.3 up\<newline>''"
    by code_simp
  have h2: "\<not> count (demo_args\<lparr>only_matching := True\<rparr>)"
    by code_simp
  have h3: "line_selected demo_args 1 demo_networks ''host1 10.1.2.3 up\<newline>''"
    by code_simp
  have h4: "\<not> count demo_args"
    by code_simp
  have h5: "1 \<le> field demo_args"
    by code_simp
  have h6: "load_cidrs (read_world crlf_contents []) demo_args =
      Inr (demo_networks, Some ''hosts.txt'')"
    by code_simp
  have h7: "crlf_contents ''hosts.txt'' = Inr (''host1 10.1.2.3 up'' @ [CHR 0x0D, CHR 0x0A])"
    by code_simp
  have f: "split_ws ''host1 10.1.2.3 up\<newline>'' ! 1 = ''10.1.2.3''"
    by code_simp
  have o: "only_matching (demo_args\<lparr>only_matching := True\<rparr>)" "\<not> only_matching demo_args"
    by (simp_all add: demo_args_def)
  have t: "text_mode_lines (''host1 10.1.2.3 up'' @ [CHR 0x0D, CHR 0x0A]) =
      [''host1 10.1.2.3 up\<newline>'']"
    by code_simp
  have s: "filter (line_selected demo_args (nat (field demo_args - 1)) demo_networks)
      [''host1 10.1.2.3 up\<newline>''] = [''host1 10.1.2.3 up\<newline>'']"
    by code_simp
  have pre: "1 \<le> field demo_args \<and>
      load_cidrs (read_world crlf_contents []) demo_args = Inr (demo_networks, Some ''hosts.txt'') \<and>
      ''hosts.txt'' \<noteq> [] \<and>
      crlf_contents ''hosts.txt'' = Inr (''host1 10.1.2.3 up'' @ [CHR 0x0D, CHR 0x0A])"
    using h5 h6 h7 by simp
  have "stdout (main (read_world crlf_contents []) demo_args) =
      map (\<lambda>l. if only_matching demo_args
               then split_ws l ! nat (field demo_args - 1) @ [CHR 0x0A] else l)
        (filter (line_selected demo_args (nat (field demo_args - 1)) demo_networks)
           (text_mode_lines (''host1 10.1.2.3 up'' @ [CHR 0x0D, CHR 0x0A])))"
    using matched_line_written_once [OF h3 h4, of 0 "[]" "[]" crlf_contents "[]" demo_networks
        "''hosts.txt''" "''host1 10.1.2.3 up'' @ [CHR 0x0D, CHR 0x0A]",
        THEN conjunct2, THEN conjunct2, THEN mp, OF pre, THEN conjunct1] .
  then have m: "stdout (main (read_world crlf_contents []) demo_args) =
      [''host1 10.1.2.3 up\<newline>'']"
    by (simp only: t s o(2) if_False list.map)
  have p1: "process_line (demo_args\<lparr>only_matching := True\<rparr>) 1 demo_networks
       ''host1 10.1.2.3 up\<newline>'' (0, []) = (1, [''10.1.2.3\<newline>''])"
    using matched_line_written_once [OF h1 h2, of 0 "[]", THEN conjunct1] f o(1) by simp
  have p2: "process_line demo_args 1 demo_networks ''host1 10.1.2.3 up\<newline>'' (0, []) =
     (1, [''host1 10.1.2.3 up\<newline>''])"
    using matched_line_written_once [OF h3 h4, of 0 "[]", THEN conjunct1] o(2) by simp
  have ne: "''hosts.txt'' \<noteq> []"
    by simp
  show ?thesis
    using h1 h2 h3 h4 h5 h6 h7 o(2) t m p1 p2 ne by blast
qed

text \<open>
  C5 as it is stated has the line's original text printed in default mode, with its
  original terminator. The input file \<open>hosts.txt\<close> holds the one line
  \<open>host1 10.1.2.3 up\r\n\<close>, which is selected with field 2 and the network
  \<open>10.0.0.0/8\<close>. What is printed is the line with the terminator \<open>\n\<close>: the output is
  not the text of the file.
\<close>

theorem original_terminator_counterexample:
  "crlf_contents ''hosts.txt'' = Inr (''host1 10.1.2.3 up'' @ [CHR 0x0D, CHR 0x0A]) \<and>
   \<not> count demo_args \<and> \<not> only_matching demo_args \<and>
   stdout (main (read_world crlf_contents []) demo_args) = [''host1 10.1.2.3 up\<newline>''] \<and>
   stdout (main (read_world crlf_contents []) demo_args)
     \<noteq> [''host1 10.1.2.3 up'' @ [CHR 0x0D, CHR 0x0A]] \<and>
   concat (stdout (main (read_world crlf_contents []) demo_args))
     \<noteq> ''host1 10.1.2.3 up'' @ [CHR 0x0D, CHR 0x0A]"
  by code_simp

text \<open>
  C4: in count mode a run that reaches the input prints exactly one string, the decimal
  number of selected lines followed by a newline, where a line is selected when it is not
  blank, has the field, and the membership of the field differs from the invert flag.
\<close>

theorem count_mode_output:
  assumes "count a" and "1 \<le> field a"
    and "load_cidrs w a = Inr (nets, infile)" and "open_input w infile = Inr ls"
  shows "stdout (main w a) =
           [str_nat (length (filter (line_selected a (nat (field a - 1)) nets) ls)) @ [CHR 0x0A]]"
  using assms by (simp add: main_def filter_lines_eq Let_def)

theorem count_mode_output_witness:
  "count (demo_args\<lparr>count := True, invert_match := True\<rparr>) \<and>
   1 \<le> field (demo_args\<lparr>count := True, invert_match := True\<rparr>) \<and>
   load_cidrs demo_world (demo_args\<lparr>count := True, invert_match := True\<rparr>) =
     Inr (demo_networks, Some ''hosts.txt'') \<and>
   open_input demo_world (Some ''hosts.txt'') = Inr demo_lines \<and>
   length (filter (line_selected (demo_args\<lparr>count := True, invert_match := True\<rparr>)
                     (nat (field (demo_args\<lparr>count := True, invert_match := True\<rparr>) - 1))
                     demo_networks) demo_lines) = 2 \<and>
   stdout (main demo_world (demo_args\<lparr>count := True, invert_match := True\<rparr>)) =
     [str_nat 2 @ [CHR 0x0A]]"
proof -
  have h1: "count (demo_args\<lparr>count := True, invert_match := True\<rparr>)"
    by code_simp
  have h2: "1 \<le> field (demo_args\<lparr>count := True, invert_match := True\<rparr>)"
    by code_simp
  have h3: "load_cidrs demo_world (demo_args\<lparr>count := True, invert_match := True\<rparr>) =
      Inr (demo_networks, Some ''hosts.txt'')"
    by code_simp
  have h4: "open_input demo_world (Some ''hosts.txt'') = Inr demo_lines"
    by code_simp
  have n: "length (filter (line_selected (demo_args\<lparr>count := True, invert_match := True\<rparr>)
                     (nat (field (demo_args\<lparr>count := True, invert_match := True\<rparr>) - 1))
                     demo_networks) demo_lines) = 2"
    by code_simp
  show ?thesis
    using h1 h2 h3 h4 n count_mode_output [OF h1 h2 h3 h4] by simp
qed

text \<open>
  C10: with the count flag and the only-matching flag both set, count mode wins. The loop
  adds nothing to the output for any line, and the run prints one string only, the final
  count.
\<close>

theorem count_overrides_only_matching:
  assumes "count a" and "only_matching a" and "1 \<le> field a"
    and "load_cidrs w a = Inr (nets, infile)" and "open_input w infile = Inr ls"
  shows "snd (filter_lines a fi nets ls' (n, out)) = out \<and>
         stdout (main w a) =
           [str_nat (fst (filter_lines a (nat (field a - 1)) nets ls (0, []))) @ [CHR 0x0A]]"
  using assms by (simp add: main_def filter_lines_eq Let_def)

theorem count_overrides_only_matching_witness:
  "count (demo_args\<lparr>count := True, only_matching := True\<rparr>) \<and>
   only_matching (demo_args\<lparr>count := True, only_matching := True\<rparr>) \<and>
   1 \<le> field (demo_args\<lparr>count := True, only_matching := True\<rparr>) \<and>
   load_cidrs demo_world (demo_args\<lparr>count := True, only_matching := True\<rparr>) =
     Inr (demo_networks, Some ''hosts.txt'') \<and>
   open_input demo_world (Some ''hosts.txt'') = Inr demo_lines \<and>
   snd (filter_lines (demo_args\<lparr>count := True, only_matching := True\<rparr>) 1 demo_networks
          demo_lines (0, [])) = [] \<and>
   fst (filter_lines (demo_args\<lparr>count := True, only_matching := True\<rparr>)
          (nat (field (demo_args\<lparr>count := True, only_matching := True\<rparr>) - 1)) demo_networks
          demo_lines (0, [])) = 1 \<and>
   stdout (main demo_world (demo_args\<lparr>count := True, only_matching := True\<rparr>)) =
     [str_nat 1 @ [CHR 0x0A]]"
proof -
  have h1: "count (demo_args\<lparr>count := True, only_matching := True\<rparr>)"
    by code_simp
  have h2: "only_matching (demo_args\<lparr>count := True, only_matching := True\<rparr>)"
    by code_simp
  have h3: "1 \<le> field (demo_args\<lparr>count := True, only_matching := True\<rparr>)"
    by code_simp
  have h4: "load_cidrs demo_world (demo_args\<lparr>count := True, only_matching := True\<rparr>) =
      Inr (demo_networks, Some ''hosts.txt'')"
    by code_simp
  have h5: "open_input demo_world (Some ''hosts.txt'') = Inr demo_lines"
    by code_simp
  have n: "fst (filter_lines (demo_args\<lparr>count := True, only_matching := True\<rparr>)
          (nat (field (demo_args\<lparr>count := True, only_matching := True\<rparr>) - 1)) demo_networks
          demo_lines (0, [])) = 1"
    by code_simp
  show ?thesis
    using h1 h2 h3 h4 h5 n
      count_overrides_only_matching [OF h1 h2 h3 h4 h5, of 1 demo_lines 0 "[]"]
    by simp
qed


text \<open>
  C3, amended: the two soft failures of a line are handled differently. A line whose field
  index is beyond its field count is skipped: it is neither counted nor printed, whatever
  the invert flag is. A line whose selected field is not an IP address is a raw non-match
  to which the invert flag is then applied, so it is selected exactly when the invert flag
  is set. Neither stops the run: once the networks are loaded and the input is open, the
  run ends with status 0 and nothing on standard error.
\<close>

theorem soft_failures_amended:
  "(length (split_ws short) \<le> fi \<longrightarrow> process_line a fi nets short st = st) \<and>
   (fi < length (split_ws line) \<and> ip_address (split_ws line ! fi) = Inl e \<longrightarrow>
      line_match a fi nets line = Some (split_ws line ! fi, invert_match a) \<and>
      line_selected a fi nets line = invert_match a) \<and>
   (1 \<le> field a \<and> load_cidrs w a = Inr (nets', infile) \<and> open_input w infile = Inr ls \<longrightarrow>
      status (main w a) = 0 \<and> stderr (main w a) = [])"
proof -
  have skip: "process_line a fi nets short st = st" if "length (split_ws short) \<le> fi"
    using that by (simp add: process_line_def line_match_eq)
  have bad: "line_match a fi nets line = Some (split_ws line ! fi, invert_match a) \<and>
      line_selected a fi nets line = invert_match a"
    if "fi < length (split_ws line)" "ip_address (split_ws line ! fi) = Inl e"
  proof -
    have "strip line \<noteq> []"
      using that(1) split_ws_blank [of line] by auto
    moreover have "\<not> ip_matches_any (split_ws line ! fi) nets"
      using that(2) by (simp add: ip_matches_any_def)
    ultimately have "line_selected a fi nets line = invert_match a"
      using that(1) by (auto simp: line_selected_def)
    then show ?thesis
      using that(1) by (simp add: line_match_eq)
  qed
  have run: "status (main w a) = 0 \<and> stderr (main w a) = []"
    if "1 \<le> field a" "load_cidrs w a = Inr (nets', infile)" "open_input w infile = Inr ls"
    using that by (simp add: main_def Let_def)
  show ?thesis
    using skip bad run by blast
qed

theorem soft_failures_amended_witness:
  "length (split_ws ''short\<newline>'') \<le> 1 \<and>
   process_line (demo_args\<lparr>invert_match := True\<rparr>) 1 demo_networks ''short\<newline>'' (0, []) = (0, []) \<and>
   1 < length (split_ws ''host3 not-an-ip up\<newline>'') \<and>
   ip_address (split_ws ''host3 not-an-ip up\<newline>'' ! 1) = Inl (NotAnIPAddress ''not-an-ip'') \<and>
   line_selected (demo_args\<lparr>invert_match := True\<rparr>) 1 demo_networks ''host3 not-an-ip up\<newline>'' \<and>
   1 \<le> field (demo_args\<lparr>invert_match := True\<rparr>) \<and>
   load_cidrs demo_world (demo_args\<lparr>invert_match := True\<rparr>) =
     Inr (demo_networks, Some ''hosts.txt'') \<and>
   open_input demo_world (Some ''hosts.txt'') = Inr demo_lines \<and>
   status (main demo_world (demo_args\<lparr>invert_match := True\<rparr>)) = 0 \<and>
   stderr (main demo_world (demo_args\<lparr>invert_match := True\<rparr>)) = []"
proof -
  have h1: "length (split_ws ''short\<newline>'') \<le> 1"
    by code_simp
  have h2: "1 < length (split_ws ''host3 not-an-ip up\<newline>'')"
    by code_simp
  have h3: "ip_address (split_ws ''host3 not-an-ip up\<newline>'' ! 1) = Inl (NotAnIPAddress ''not-an-ip'')"
    by code_simp
  have h4: "1 \<le> field (demo_args\<lparr>invert_match := True\<rparr>)"
    by code_simp
  have h5: "load_cidrs demo_world (demo_args\<lparr>invert_match := True\<rparr>) =
      Inr (demo_networks, Some ''hosts.txt'')"
    by code_simp
  have h6: "open_input demo_world (Some ''hosts.txt'') = Inr demo_lines"
    by code_simp
  have i: "invert_match (demo_args\<lparr>invert_match := True\<rparr>)"
    by simp
  show ?thesis
    using h1 h2 h3 h4 h5 h6 i
      soft_failures_amended [of "''short\<newline>''" 1 "demo_args\<lparr>invert_match := True\<rparr>"
        demo_networks "(0, [])" "''host3 not-an-ip up\<newline>''" "NotAnIPAddress ''not-an-ip''"
        demo_world demo_networks "Some ''hosts.txt''" demo_lines]
    by simp
qed

text \<open>
  C3 as it is stated treats a field index beyond the field count as a raw non-match that
  the invert flag then applies to, so with the invert flag set the line would be selected,
  counted and printed. With \<open>-v\<close> and field 2, the one-field line \<open>short\<close> is left by
  \<open>continue\<close> before the inversion: it is not counted and not printed.
\<close>

theorem soft_failure_invert_counterexample:
  "length (split_ws ''short\<newline>'') \<le> 1 \<and>
   invert_match (demo_args\<lparr>invert_match := True\<rparr>) \<and>
   process_line (demo_args\<lparr>invert_match := True\<rparr>) 1 demo_networks ''short\<newline>'' (0, [])
     \<noteq> (if invert_match (demo_args\<lparr>invert_match := True\<rparr>) then (1, [''short\<newline>''])
         else (0, [])) \<and>
   ''short\<newline>'' \<in> set demo_lines \<and>
   ''short\<newline>'' \<notin> set (stdout (main demo_world (demo_args\<lparr>invert_match := True\<rparr>)))"
  by code_simp

subsection \<open>Membership\<close>

text \<open>
  C2: for an address that parses and a network set built from expressions, membership holds
  exactly when some network of the set has the family of the address and the address,
  masked to the prefix length of that network, is the network's base address. When every
  network of the set is of the other family the result is false, and over the empty set it
  is false.
\<close>

theorem membership_iff:
  assumes "parse_networks cs = Inr S" and "ip_address ip_s = Inr A"
  shows "(ip_matches_any ip_s S \<longleftrightarrow>
            (\<exists>N\<in>set S. net_version N = version A \<and>
               ip A AND ip_int_from_prefix (net_version N) (prefixlen N) = network_address N)) \<and>
         ((\<forall>N\<in>set S. net_version N \<noteq> version A) \<longrightarrow> \<not> ip_matches_any ip_s S) \<and>
         \<not> ip_matches_any ip_s []"
proof -
  have nm: "netmask N = ip_int_from_prefix (net_version N) (prefixlen N)" if "N \<in> set S" for N
    using parse_networks_sound [OF assms(1) that] ip_network_netmask by blast
  show ?thesis
    using assms(2) nm by (auto simp: ip_matches_any_def any_network_iff net_contains_def)
qed

theorem membership_iff_witness:
  "parse_networks [''10.0.0.0/8'', ''2001:db8::/32''] =
     Inr [\<lparr>net_version = V4, network_address = 167772160, netmask = 4278190080, prefixlen = 8\<rparr>,
          \<lparr>net_version = V6, network_address = 42540766411282592856903984951653826560,
           netmask = 340282366841710300949110269838224261120, prefixlen = 32\<rparr>] \<and>
   ip_address ''10.1.2.3'' = Inr \<lparr>version = V4, ip = 167838211, scope_id = None\<rparr> \<and>
   ip_matches_any ''10.1.2.3''
     [\<lparr>net_version = V4, network_address = 167772160, netmask = 4278190080, prefixlen = 8\<rparr>,
      \<lparr>net_version = V6, network_address = 42540766411282592856903984951653826560,
       netmask = 340282366841710300949110269838224261120, prefixlen = 32\<rparr>] \<and>
   parse_networks [''2001:db8::/32''] =
     Inr [\<lparr>net_version = V6, network_address = 42540766411282592856903984951653826560,
           netmask = 340282366841710300949110269838224261120, prefixlen = 32\<rparr>] \<and>
   \<not> ip_matches_any ''10.1.2.3''
     [\<lparr>net_version = V6, network_address = 42540766411282592856903984951653826560,
       netmask = 340282366841710300949110269838224261120, prefixlen = 32\<rparr>] \<and>
   \<not> ip_matches_any ''10.1.2.3'' []"
proof -
  have h1: "parse_networks [''10.0.0.0/8'', ''2001:db8::/32''] =
     Inr [\<lparr>net_version = V4, network_address = 167772160, netmask = 4278190080, prefixlen = 8\<rparr>,
          \<lparr>net_version = V6, network_address = 42540766411282592856903984951653826560,
           netmask = 340282366841710300949110269838224261120, prefixlen = 32\<rparr>]"
    by code_simp
  have h2: "ip_address ''10.1.2.3'' = Inr \<lparr>version = V4, ip = 167838211, scope_id = None\<rparr>"
    by code_simp
  have h3: "parse_networks [''2001:db8::/32''] =
     Inr [\<lparr>net_version = V6, network_address = 42540766411282592856903984951653826560,
           netmask = 340282366841710300949110269838224261120, prefixlen = 32\<rparr>]"
    by code_simp
  have m: "(167838211::int) AND ip_int_from_prefix V4 8 = 167772160"
    by code_simp
  show ?thesis
    using h1 h2 h3 m membership_iff [OF h1 h2] membership_iff [OF h3 h2]
    by simp
qed

text \<open>
  C7: an expression whose address has bits set below the prefix length is accepted. The
  network built from it has the address with those bits cleared as its base address, which
  differs from the address given and has no host bit left, and the build of the whole list
  goes on with that network in its place.
\<close>

theorem host_bits_masked:
  assumes "network_parts s = Some (v, a, nm, p)"
    and "ip a AND (nm XOR ALL_ONES v) \<noteq> 0"
    and "parse_networks pre = Inr ns" and "parse_networks post = Inr ms"
  shows "ip_network s =
           Inr \<lparr>net_version = v, network_address = ip a AND nm, netmask = nm, prefixlen = p\<rparr> \<and>
         nm = ip_int_from_prefix v p \<and>
         (ip a AND nm) AND (nm XOR ALL_ONES v) = 0 \<and>
         ip a AND nm \<noteq> ip a \<and>
         parse_networks (pre @ s # post) =
           Inr (ns @ \<lparr>net_version = v, network_address = ip a AND nm, netmask = nm,
                      prefixlen = p\<rparr> # ms)"
proof -
  have nm: "nm = ip_int_from_prefix v p"
    using assms(1) by (rule network_parts_netmask)
  have net: "ip_network s =
      Inr \<lparr>net_version = v, network_address = ip a AND nm, netmask = nm, prefixlen = p\<rparr>"
    using assms(1) by (simp add: ip_network_parts make_network_eq)
  have zero: "(ip a AND nm) AND (nm XOR ALL_ONES v) = 0"
    unfolding nm by (rule netmask_hostmask_disjoint)
  have changed: "ip a AND nm \<noteq> ip a"
    using assms(2) zero by auto
  have build: "parse_networks (pre @ s # post) =
      Inr (ns @ \<lparr>net_version = v, network_address = ip a AND nm, netmask = nm,
                 prefixlen = p\<rparr> # ms)"
    using assms(3,4) net by (simp add: parse_networks_append)
  show ?thesis using nm net zero changed build by blast
qed

theorem host_bits_masked_witness:
  "network_parts ''10.1.2.3/8'' =
     Some (V4, \<lparr>version = V4, ip = 167838211, scope_id = None\<rparr>, 4278190080, 8) \<and>
   (167838211::int) AND (4278190080 XOR ALL_ONES V4) \<noteq> 0 \<and>
   parse_networks [''2001:db8::/32''] =
     Inr [\<lparr>net_version = V6, network_address = 42540766411282592856903984951653826560,
           netmask = 340282366841710300949110269838224261120, prefixlen = 32\<rparr>] \<and>
   parse_networks [] = Inr [] \<and>
   ip_network ''10.1.2.3/8'' =
     Inr \<lparr>net_version = V4, network_address = 167838211 AND 4278190080, netmask = 4278190080,
          prefixlen = 8\<rparr> \<and>
   (167838211::int) AND 4278190080 = 167772160 \<and>
   parse_networks ([''2001:db8::/32''] @ ''10.1.2.3/8'' # []) =
     Inr ([\<lparr>net_version = V6, network_address = 42540766411282592856903984951653826560,
            netmask = 340282366841710300949110269838224261120, prefixlen = 32\<rparr>] @
          \<lparr>net_version = V4, network_address = 167838211 AND 4278190080, netmask = 4278190080,
           prefixlen = 8\<rparr> # [])"
proof -
  have h1: "network_parts ''10.1.2.3/8'' =
     Some (V4, \<lparr>version = V4, ip = 167838211, scope_id = None\<rparr>, 4278190080, 8)"
    by code_simp
  have h2: "ip \<lparr>version = V4, ip = 167838211, scope_id = None\<rparr> AND (4278190080 XOR ALL_ONES V4) \<noteq> 0"
    by code_simp
  have h3: "parse_networks [''2001:db8::/32''] =
     Inr [\<lparr>net_version = V6, network_address = 42540766411282592856903984951653826560,
           netmask = 340282366841710300949110269838224261120, prefixlen = 32\<rparr>]"
    by code_simp
  have h4: "parse_networks [] = Inr []"
    by simp
  have m: "(167838211::int) AND 4278190080 = 167772160"
    by code_simp
  show ?thesis
    using h1 h2 h3 h4 m host_bits_masked [OF h1 h2 h3 h4]
    by simp
qed


subsection \<open>Loading the expressions\<close>

text \<open>
  C1: for a non-empty list of positional tokens only the last token is examined. When it
  parses as a network (host bits allowed), all positional tokens, the last included, are
  added to the expressions and \<open>infile\<close> stays \<open>None\<close>, which is standard input. When it
  does not parse, it becomes \<open>infile\<close> and exactly the tokens before it are added. The
  tokens before the last pass through as they are, parseable or not.
\<close>

theorem positional_disambiguation:
  assumes "args a \<noteq> []" and "file_cidrs w a = Inr fs"
  shows "(\<forall>n. ip_network (last (args a)) = Inr n \<longrightarrow>
            cidr_strings_of w a = Inr (expr a @ fs @ args a, None)) \<and>
         (\<forall>e. ip_network (last (args a)) = Inl e \<longrightarrow>
            cidr_strings_of w a =
              Inr (expr a @ fs @ butlast (args a), Some (last (args a)))) \<and>
         resolve_positional (args a) =
           (butlast (args a) @ fst (resolve_positional [last (args a)]),
            snd (resolve_positional [last (args a)]))"
proof -
  obtain ts t where ts: "args a = ts @ [t]"
    using assms(1) by (metis append_butlast_last_id)
  show ?thesis
    using assms(2) resolve_positional_snoc [of ts t] resolve_positional_snoc [of "[]" t]
    by (auto simp: ts cidr_strings_of_def split: sum.splits)
qed

theorem positional_disambiguation_witness:
  "args demo_args \<noteq> [] \<and>
   file_cidrs demo_world demo_args = Inr [] \<and>
   ip_network (last (args demo_args)) = Inl (NotAnIPNetwork ''hosts.txt'') \<and>
   cidr_strings_of demo_world demo_args =
     Inr (expr demo_args @ [] @ butlast (args demo_args), Some (last (args demo_args))) \<and>
   cidr_strings_of demo_world demo_args = Inr ([''10.0.0.0/8''], Some ''hosts.txt'') \<and>
   args (demo_args\<lparr>args := [''not a net'', ''192.168.1.7/24'']\<rparr>) \<noteq> [] \<and>
   file_cidrs demo_world (demo_args\<lparr>args := [''not a net'', ''192.168.1.7/24'']\<rparr>) = Inr [] \<and>
   ip_network (last (args (demo_args\<lparr>args := [''not a net'', ''192.168.1.7/24'']\<rparr>))) =
     Inr \<lparr>net_version = V4, network_address = 3232235776, netmask = 4294967040,
          prefixlen = 24\<rparr> \<and>
   cidr_strings_of demo_world (demo_args\<lparr>args := [''not a net'', ''192.168.1.7/24'']\<rparr>) =
     Inr ([''not a net'', ''192.168.1.7/24''], None)"
proof -
  have h1: "args demo_args \<noteq> []"
    by code_simp
  have h2: "file_cidrs demo_world demo_args = Inr []"
    by code_simp
  have h3: "ip_network (last (args demo_args)) = Inl (NotAnIPNetwork ''hosts.txt'')"
    by code_simp
  have h4: "args (demo_args\<lparr>args := [''not a net'', ''192.168.1.7/24'']\<rparr>) \<noteq> []"
    by code_simp
  have h5: "file_cidrs demo_world (demo_args\<lparr>args := [''not a net'', ''192.168.1.7/24'']\<rparr>) = Inr []"
    by code_simp
  have h6: "ip_network (last (args (demo_args\<lparr>args := [''not a net'', ''192.168.1.7/24'']\<rparr>))) =
     Inr \<lparr>net_version = V4, network_address = 3232235776, netmask = 4294967040,
          prefixlen = 24\<rparr>"
    by code_simp
  have e1: "cidr_strings_of demo_world demo_args =
     Inr (expr demo_args @ [] @ butlast (args demo_args), Some (last (args demo_args)))"
    using positional_disambiguation [OF h1 h2] h3 by blast
  have e2: "cidr_strings_of demo_world (demo_args\<lparr>args := [''not a net'', ''192.168.1.7/24'']\<rparr>) =
     Inr (expr (demo_args\<lparr>args := [''not a net'', ''192.168.1.7/24'']\<rparr>) @ [] @
          args (demo_args\<lparr>args := [''not a net'', ''192.168.1.7/24'']\<rparr>), None)"
    using positional_disambiguation [OF h4 h5] h6 by blast
  have v1: "expr demo_args @ [] @ butlast (args demo_args) = [''10.0.0.0/8'']"
    "last (args demo_args) = ''hosts.txt''"
    by (simp_all add: demo_args_def)
  have v2: "expr (demo_args\<lparr>args := [''not a net'', ''192.168.1.7/24'']\<rparr>) @ [] @
      args (demo_args\<lparr>args := [''not a net'', ''192.168.1.7/24'']\<rparr>) =
      [''not a net'', ''192.168.1.7/24'']"
    by (simp add: demo_args_def)
  show ?thesis
    using h1 h2 h3 h4 h5 h6 e1 e2 v1 v2 by simp
qed

text \<open>
  C8: when an expression of the combined list (from the flags, the CIDR file and the
  positional tokens that were kept as expressions) does not parse as a network, the build
  stops at the first such expression with a fatal error of status 2 that carries the text
  of the expression and the reason. With a field number of at least 1, the run ends there:
  nothing is printed, and the result is the same for every world that gives the same
  expressions, so no line of the input has a part in it.
\<close>

theorem invalid_expression_aborts:
  assumes "cidr_strings_of w a = Inr (cs, infile)" and "c \<in> set cs" and "ip_network c = Inl e"
  shows "\<exists>pre c' post. cs = pre @ c' # post \<and> (\<forall>x\<in>set pre. \<exists>n. ip_network x = Inr n) \<and>
           ip_network c' = Inl (NotAnIPNetwork c') \<and>
           load_cidrs w a = Inl (InvalidCIDR c' (NotAnIPNetwork c'), 2) \<and>
           (\<forall>w'. 1 \<le> field a \<and> cidr_strings_of w' a = cidr_strings_of w a \<longrightarrow>
              main w' a =
                \<lparr>stdout = [], stderr = [InvalidCIDR c' (NotAnIPNetwork c')], status = 2\<rparr>)"
proof -
  from parse_networks_first_failure [OF assms(2,3)] obtain pre c' post where
    h: "cs = pre @ c' # post" "\<forall>x\<in>set pre. \<exists>n. ip_network x = Inr n"
       "ip_network c' = Inl (NotAnIPNetwork c')"
       "parse_networks cs = Inl (InvalidCIDR c' (NotAnIPNetwork c'), 2)"
    by blast
  have ne: "cs \<noteq> []" using assms(2) by auto
  have l: "load_cidrs w' a = Inl (InvalidCIDR c' (NotAnIPNetwork c'), 2)"
    if "cidr_strings_of w' a = cidr_strings_of w a" for w'
    using that assms(1) h(4) ne by (simp add: load_cidrs_def)
  have m: "main w' a = \<lparr>stdout = [], stderr = [InvalidCIDR c' (NotAnIPNetwork c')], status = 2\<rparr>"
    if "1 \<le> field a" "cidr_strings_of w' a = cidr_strings_of w a" for w'
    using that(1) l [OF that(2)] by (simp add: main_def fatal_exit_def)
  show ?thesis using h(1,2,3) l [of w] m by blast
qed

theorem invalid_expression_aborts_witness:
  "cidr_strings_of demo_world (demo_args\<lparr>args := [''10.0.0.0/8'', ''10.0.0.0/33'', ''hosts.txt'']\<rparr>) =
     Inr ([''10.0.0.0/8'', ''10.0.0.0/33''], Some ''hosts.txt'') \<and>
   ''10.0.0.0/33'' \<in> set [''10.0.0.0/8'', ''10.0.0.0/33''] \<and>
   ip_network ''10.0.0.0/33'' = Inl (NotAnIPNetwork ''10.0.0.0/33'') \<and>
   1 \<le> field (demo_args\<lparr>args := [''10.0.0.0/8'', ''10.0.0.0/33'', ''hosts.txt'']\<rparr>) \<and>
   (\<exists>c'. load_cidrs demo_world
            (demo_args\<lparr>args := [''10.0.0.0/8'', ''10.0.0.0/33'', ''hosts.txt'']\<rparr>) =
            Inl (InvalidCIDR c' (NotAnIPNetwork c'), 2) \<and>
          main demo_world (demo_args\<lparr>args := [''10.0.0.0/8'', ''10.0.0.0/33'', ''hosts.txt'']\<rparr>) =
            \<lparr>stdout = [], stderr = [InvalidCIDR c' (NotAnIPNetwork c')], status = 2\<rparr>)"
proof -
  have h1: "cidr_strings_of demo_world
      (demo_args\<lparr>args := [''10.0.0.0/8'', ''10.0.0.0/33'', ''hosts.txt'']\<rparr>) =
     Inr ([''10.0.0.0/8'', ''10.0.0.0/33''], Some ''hosts.txt'')"
    by code_simp
  have h2: "''10.0.0.0/33'' \<in> set [''10.0.0.0/8'', ''10.0.0.0/33'']"
    by simp
  have h3: "ip_network ''10.0.0.0/33'' = Inl (NotAnIPNetwork ''10.0.0.0/33'')"
    by code_simp
  have h4: "1 \<le> field (demo_args\<lparr>args := [''10.0.0.0/8'', ''10.0.0.0/33'', ''hosts.txt'']\<rparr>)"
    by code_simp
  show ?thesis
    using h1 h2 h3 h4 invalid_expression_aborts [OF h1 h2 h3] by blast
qed

text \<open>
  C9: a field number below 1, and an empty list of expressions after the three sources are
  merged, each end the run with a message on standard error and status 2. Nothing is
  printed on standard output, whatever the input holds.
\<close>

theorem configuration_errors:
  "(field a < 1 \<longrightarrow>
      main w a = \<lparr>stdout = [], stderr = [FieldNumberMustBeAtLeast1], status = 2\<rparr>) \<and>
   (1 \<le> field b \<and> cidr_strings_of w b = Inr ([], infile) \<longrightarrow>
      load_cidrs w b = Inl (NoCidrsProvided, 2) \<and>
      main w b = \<lparr>stdout = [], stderr = [NoCidrsProvided], status = 2\<rparr>)"
  by (simp add: main_def fatal_exit_def load_cidrs_def)

theorem configuration_errors_witness:
  "field (demo_args\<lparr>field := 0\<rparr>) < 1 \<and>
   main demo_world (demo_args\<lparr>field := 0\<rparr>) =
     \<lparr>stdout = [], stderr = [FieldNumberMustBeAtLeast1], status = 2\<rparr> \<and>
   1 \<le> field (demo_args\<lparr>args := [''hosts.txt'']\<rparr>) \<and>
   cidr_strings_of demo_world (demo_args\<lparr>args := [''hosts.txt'']\<rparr>) =
     Inr ([], Some ''hosts.txt'') \<and>
   load_cidrs demo_world (demo_args\<lparr>args := [''hosts.txt'']\<rparr>) = Inl (NoCidrsProvided, 2) \<and>
   main demo_world (demo_args\<lparr>args := [''hosts.txt'']\<rparr>) =
     \<lparr>stdout = [], stderr = [NoCidrsProvided], status = 2\<rparr>"
proof -
  have h1: "field (demo_args\<lparr>field := 0\<rparr>) < 1"
    by code_simp
  have h2: "1 \<le> field (demo_args\<lparr>args := [''hosts.txt'']\<rparr>)"
    by code_simp
  have h3: "cidr_strings_of demo_world (demo_args\<lparr>args := [''hosts.txt'']\<rparr>) =
     Inr ([], Some ''hosts.txt'')"
    by code_simp
  show ?thesis
    using h1 h2 h3
      configuration_errors [of "demo_args\<lparr>field := 0\<rparr>" demo_world
        "demo_args\<lparr>args := [''hosts.txt'']\<rparr>" "Some ''hosts.txt''"]
    by blast
qed


end
